theory Spec2Isabelle
  imports Complex_Main
begin

section \<open>Strings and numbers of the host language\<close>

text \<open>
  The program is TypeScript. A string is modelled as a \<^typ>\<open>string\<close>, the list of its
  bytes in UTF-8, so every ASCII character is one \<^typ>\<open>char\<close>. A number that counts
  months, years or points is an \<^typ>\<open>int\<close>; a quotient of two of them is a
  \<^typ>\<open>rat\<close>. An optional property \<open>p?: T\<close> is a \<open>T option\<close>.
\<close>

definition lower_char :: "char \<Rightarrow> char" where
  "lower_char c =
     (let n = (of_char c :: nat) in if 65 \<le> n \<and> n \<le> 90 then char_of (n + 32) else c)"

text \<open>\<open>String.prototype.toLowerCase\<close>, on the letters \<open>A\<close> to \<open>Z\<close>; every other byte is kept.\<close>

definition toLowerCase :: "string \<Rightarrow> string" where
  "toLowerCase s = map lower_char s"

text \<open>\<open>s.includes(k)\<close>: \<open>k\<close> occurs in \<open>s\<close> as a contiguous substring.\<close>

fun str_includes :: "string \<Rightarrow> string \<Rightarrow> bool" where
  "str_includes [] k = (k = [])"
| "str_includes (c # cs) k = (take (length k) (c # cs) = k \<or> str_includes cs k)"

text \<open>\<open>xs.join(sep)\<close>.\<close>

fun join :: "string \<Rightarrow> string list \<Rightarrow> string" where
  "join sep [] = []"
| "join sep [x] = x"
| "join sep (x # y # ys) = x @ sep @ join sep (y # ys)"

text \<open>\<open>Math.round\<close>: the nearest integer, a tie going towards plus infinity.\<close>

definition Math_round :: "rat \<Rightarrow> int" where
  "Math_round x = \<lfloor>x + 1 / 2\<rfloor>"

text \<open>The decimal numeral that a template literal prints for an integer.\<close>

fun digits_of :: "nat \<Rightarrow> string" where
  "digits_of n =
     (if n < 10 then [char_of (48 + n)] else digits_of (n div 10) @ [char_of (48 + n mod 10)])"

definition number_to_string :: "int \<Rightarrow> string" where
  "number_to_string i = (if i < 0 then CHR ''-'' # digits_of (nat (- i)) else digits_of (nat i))"

text \<open>The character U+2713 (check mark) that starts every match reason, in UTF-8.\<close>

definition check_mark :: string where
  "check_mark = [CHR 0xE2, CHR 0x9C, CHR 0x93]"

section \<open>Data model (\<open>types/index.d.ts\<close>)\<close>

record Education =
  degree :: string
  institution :: string
  graduationYear :: "int option"
  field :: "string option"
  gpa :: "rat option"

record WorkExperience =
  title :: string
  company :: string
  startDate :: string
  endDate :: "string option"
  duration :: int
  description :: "string option"
  technologies :: "string list option"

datatype skill_category = technical | soft | language | tool

datatype skill_proficiency = beginner | intermediate | advanced | expert

record Skill =
  name :: string
  category :: skill_category
  proficiency :: "skill_proficiency option"
  yearsOfExperience :: "int option"

record Certification =
  cert_name :: string
  issuingOrganization :: string
  issueDate :: "string option"
  expiryDate :: "string option"
  credentialId :: "string option"

record ParsedResume =
  fullName :: string
  email :: string
  phone :: string
  education :: "Education list"
  workExperience :: "WorkExperience list"
  skills :: "Skill list"
  certifications :: "Certification list"
  rawText :: "string option"

datatype degree_level = high_school | associate | bachelor | master | phd

record RequiredEducation =
  minimumDegree :: degree_level
  preferredFields :: "string list option"

record JobRequirements =
  minimumYearsOfExperience :: int
  requiredSkills :: "string list"
  preferredSkills :: "string list"
  requiredEducation :: RequiredEducation
  requiredCertifications :: "string list option"
  softSkills :: "string list option"

datatype decision = Pass | Fail

record ScreeningResult =
  candidateProfile :: ParsedResume
  screeningResult :: decision
  matchReasons :: "string list"
  confidenceScore :: rat
  missingRequirements :: "string list"
  errorMessages :: "string list"

text \<open>The key of a level in the tables of the source, and its rank in \<open>levelHierarchy\<close>.\<close>

fun level_name :: "degree_level \<Rightarrow> string" where
  "level_name high_school = ''high_school''"
| "level_name associate = ''associate''"
| "level_name bachelor = ''bachelor''"
| "level_name master = ''master''"
| "level_name phd = ''phd''"

fun levelHierarchy :: "degree_level \<Rightarrow> int" where
  "levelHierarchy high_school = 1"
| "levelHierarchy associate = 2"
| "levelHierarchy bachelor = 3"
| "levelHierarchy master = 4"
| "levelHierarchy phd = 5"

section \<open>The evaluator (class \<open>ResumeEvaluator\<close>)\<close>

record SkillMatch =
  matched :: "string list"
  percentage :: int

text \<open>
  The object that \<open>extractEvaluationFeatures\<close> returns. Its properties carry the prefix
  \<open>f_\<close>, since several of them share their name with the method that computes them.
\<close>

record EvaluationFeatures =
  f_hasValidContact :: bool
  f_totalExperience :: int
  f_hasRelevantExperience :: bool
  f_skillMatch :: SkillMatch
  f_hasRequiredSkills :: bool
  f_educationLevel :: degree_level
  f_hasRelevantEducation :: bool
  f_hasCertifications :: bool
  f_resumeCompleteness :: int
  f_candidateSkillNames :: "string list"

text \<open>What each \<open>evaluate...\<close> method returns, and what \<open>performEvaluation\<close> returns.\<close>

record CategoryScore =
  pass :: bool
  score :: int

record Evaluation =
  ev_pass :: bool
  ev_confidence :: rat
  ev_reasons :: "string list"
  ev_missing :: "string list"
  ev_errors :: "string list"

definition hasValidContact :: "ParsedResume \<Rightarrow> bool" where
  "hasValidContact candidateData =
     (length (email candidateData) > 0 \<and> length (phone candidateData) > 0)"

definition calculateTotalExperience :: "WorkExperience list \<Rightarrow> int" where
  "calculateTotalExperience workExperience' =
     (let totalMonths = foldl (\<lambda>total exp. total + duration exp) 0 workExperience'
      in Math_round (of_int totalMonths / 12))"

definition relevantKeywords :: "string list" where
  "relevantKeywords =
     [''software'', ''developer'', ''engineer'', ''programmer'', ''coding'',
      ''web'', ''application'', ''system'', ''database'', ''frontend'', ''backend'']"

definition hasRelevantExperience :: "WorkExperience list \<Rightarrow> bool" where
  "hasRelevantExperience workExperience' =
     list_ex (\<lambda>exp.
        let title' = toLowerCase (title exp);
            description' = (case description exp of Some d \<Rightarrow> toLowerCase d | None \<Rightarrow> [])
        in list_ex (\<lambda>keyword. str_includes title' keyword \<or> str_includes description' keyword)
             relevantKeywords)
       workExperience'"

definition allSkills :: "string list" where
  "allSkills =
     [''JavaScript'', ''Python'', ''Java'', ''C++'', ''React'', ''Angular'', ''Vue'', ''Node.js'',
      ''SQL'', ''MongoDB'', ''AWS'', ''Azure'', ''Docker'', ''Kubernetes'', ''Git'', ''Linux'',
      ''HTML'', ''CSS'', ''TypeScript'', ''PHP'', ''Ruby'', ''Go'', ''Rust'', ''Swift'', ''Kotlin'']"

definition analyzeSkillMatch :: "Skill list \<Rightarrow> SkillMatch" where
  "analyzeSkillMatch skills' =
     (let candidateSkillNames = map (\<lambda>skill. toLowerCase (name skill)) skills';
          matchedSkills = filter (\<lambda>skill. toLowerCase skill \<in> set candidateSkillNames) allSkills
      in \<lparr>matched = matchedSkills,
          percentage =
            Math_round (of_nat (length matchedSkills) / of_nat (length allSkills) * 100)\<rparr>)"

text \<open>The local constant \<open>requiredSkills\<close> of the method \<open>hasRequiredSkills\<close>.\<close>

definition commonSkills :: "string list" where
  "commonSkills =
     [''JavaScript'', ''Python'', ''Java'', ''React'', ''Node.js'', ''SQL'',
      ''Git'', ''HTML'', ''CSS'', ''TypeScript'', ''AWS'', ''Docker'']"

definition hasRequiredSkills :: "Skill list \<Rightarrow> bool" where
  "hasRequiredSkills skills' =
     (let candidateSkillNames = map (\<lambda>skill. toLowerCase (name skill)) skills'
      in list_ex (\<lambda>skill. toLowerCase skill \<in> set candidateSkillNames) commonSkills)"

text \<open>
  One turn of the loop of \<open>determineEducationLevel\<close>, on the pair
  \<open>(highestLevel, highestLevelNum)\<close>.
\<close>

definition raise_level :: "degree_level \<Rightarrow> degree_level \<times> int \<Rightarrow> degree_level \<times> int" where
  "raise_level l st = (if levelHierarchy l > snd st then (l, levelHierarchy l) else st)"

definition education_step :: "degree_level \<times> int \<Rightarrow> Education \<Rightarrow> degree_level \<times> int" where
  "education_step st edu =
     (let degree' = toLowerCase (degree edu) in
      if str_includes degree' ''phd'' \<or> str_includes degree' ''doctorate''
        then raise_level phd st
      else if str_includes degree' ''master'' \<or> str_includes degree' ''ms''
              \<or> str_includes degree' ''ma''
        then raise_level master st
      else if str_includes degree' ''bachelor'' \<or> str_includes degree' ''bs''
              \<or> str_includes degree' ''ba''
        then raise_level bachelor st
      else if str_includes degree' ''associate'' \<or> str_includes degree' ''aa''
              \<or> str_includes degree' ''as''
        then raise_level associate st
      else st)"

definition determineEducationLevel :: "Education list \<Rightarrow> degree_level" where
  "determineEducationLevel education' =
     (if length education' = 0 then high_school
      else fst (foldl education_step (high_school, 1) education'))"

definition relevantFields :: "string list" where
  "relevantFields =
     [''computer science'', ''software engineering'', ''information technology'',
      ''data science'', ''engineering'', ''mathematics'', ''physics'']"

definition hasRelevantEducation :: "Education list \<Rightarrow> bool" where
  "hasRelevantEducation education' =
     list_ex (\<lambda>edu.
        let field' = (case field edu of Some f \<Rightarrow> toLowerCase f | None \<Rightarrow> [])
        in list_ex (\<lambda>relevant. str_includes field' relevant) relevantFields)
       education'"

definition calculateCompleteness :: "ParsedResume \<Rightarrow> int" where
  "calculateCompleteness candidateData =
     (let score = 0;
          maxScore = 100;
          score = (if fullName candidateData \<noteq> ''Unknown'' then score + 10 else score);
          score = (if email candidateData \<noteq> [] then score + 5 else score);
          score = (if phone candidateData \<noteq> [] then score + 5 else score);
          score = (if length (workExperience candidateData) > 0 then score + 30 else score);
          score = (if length (education candidateData) > 0 then score + 20 else score);
          score = (if length (skills candidateData) > 0 then score + 20 else score);
          score = (if length (certifications candidateData) > 0 then score + 10 else score)
      in min score maxScore)"

definition extractEvaluationFeatures :: "ParsedResume \<Rightarrow> EvaluationFeatures" where
  "extractEvaluationFeatures candidateData =
     \<lparr>f_hasValidContact = hasValidContact candidateData,
      f_totalExperience = calculateTotalExperience (workExperience candidateData),
      f_hasRelevantExperience = hasRelevantExperience (workExperience candidateData),
      f_skillMatch = analyzeSkillMatch (skills candidateData),
      f_hasRequiredSkills = hasRequiredSkills (skills candidateData),
      f_educationLevel = determineEducationLevel (education candidateData),
      f_hasRelevantEducation = hasRelevantEducation (education candidateData),
      f_hasCertifications = (length (certifications candidateData) > 0),
      f_resumeCompleteness = calculateCompleteness candidateData,
      f_candidateSkillNames = map (\<lambda>skill. toLowerCase (name skill)) (skills candidateData)\<rparr>"

definition evaluateExperience :: "EvaluationFeatures \<Rightarrow> JobRequirements \<Rightarrow> CategoryScore" where
  "evaluateExperience features requirements =
     (let hasMinimumExperience =
            (f_totalExperience features \<ge> minimumYearsOfExperience requirements);
          hasRelevantExperience' = f_hasRelevantExperience features;
          score = 0;
          score = (if hasMinimumExperience then score + 20 else score);
          score = (if hasRelevantExperience' then score + 10 else score)
      in \<lparr>pass = hasMinimumExperience, score = score\<rparr>)"

definition evaluateSkills :: "EvaluationFeatures \<Rightarrow> JobRequirements \<Rightarrow> CategoryScore" where
  "evaluateSkills features requirements =
     (let hasRequiredSkills' = f_hasRequiredSkills features;
          skillMatchPercentage = percentage (f_skillMatch features);
          score = 0;
          score = (if hasRequiredSkills' then score + 25 else score);
          score = (if skillMatchPercentage \<ge> 50 then score + 15 else score)
      in \<lparr>pass = hasRequiredSkills', score = score\<rparr>)"

text \<open>
  Both levels are keys of \<open>levelHierarchy\<close>, so the fallback \<open>|| 0\<close> of the source is never
  taken.
\<close>

definition evaluateEducation :: "EvaluationFeatures \<Rightarrow> JobRequirements \<Rightarrow> CategoryScore" where
  "evaluateEducation features requirements =
     (let educationLevel = f_educationLevel features;
          hasRelevantEducation' = f_hasRelevantEducation features;
          requiredLevel = levelHierarchy (minimumDegree (requiredEducation requirements));
          candidateLevel = levelHierarchy educationLevel;
          meetsLevel = (candidateLevel \<ge> requiredLevel);
          score = 0;
          score = (if meetsLevel then score + 15 else score);
          score = (if hasRelevantEducation' then score + 5 else score)
      in \<lparr>pass = meetsLevel, score = score\<rparr>)"

text \<open>\<open>certificationsRequired\<close> is the test \<open>requiredCertifications && length > 0\<close>.\<close>

definition certificationsRequired :: "JobRequirements \<Rightarrow> bool" where
  "certificationsRequired requirements =
     (case requiredCertifications requirements of None \<Rightarrow> False | Some cs \<Rightarrow> length cs > 0)"

definition evaluateCertifications :: "EvaluationFeatures \<Rightarrow> JobRequirements \<Rightarrow> CategoryScore" where
  "evaluateCertifications features requirements =
     (let hasCertifications = f_hasCertifications features in
      if \<not> certificationsRequired requirements then \<lparr>pass = True, score = 10\<rparr>
      else \<lparr>pass = hasCertifications, score = (if hasCertifications then 10 else 0)\<rparr>)"

text \<open>
  \<open>performEvaluation\<close> pushes onto two local arrays and adds to two local counters; the
  model rebinds \<open>reasons\<close>, \<open>missing\<close>, \<open>passScore\<close> and \<open>totalScore\<close> in the same order.
\<close>

definition performEvaluation :: "EvaluationFeatures \<Rightarrow> JobRequirements \<Rightarrow> Evaluation" where
  "performEvaluation features requirements =
     (let reasons = [];
          missing = [];
          errors = [];
          passScore = 0;
          totalScore = (0 :: int);
          experienceScore = evaluateExperience features requirements;
          passScore = passScore + score experienceScore;
          totalScore = totalScore + 30;
          reasons = (if pass experienceScore
                     then reasons @ [check_mark @ '' '' @ number_to_string (f_totalExperience features)
                                       @ '' years of experience'']
                     else reasons);
          missing = (if pass experienceScore then missing
                     else missing @ [''Requires ''
                                       @ number_to_string (minimumYearsOfExperience requirements)
                                       @ ''+ years experience'']);
          skillsScore = evaluateSkills features requirements;
          passScore = passScore + score skillsScore;
          totalScore = totalScore + 40;
          reasons = (if pass skillsScore
                     then reasons @ [check_mark @ '' Has required technical skills'']
                     else reasons);
          missing = (if pass skillsScore then missing
                     else (let missingSkills =
                                 filter (\<lambda>skill. toLowerCase skill
                                                   \<notin> set (f_candidateSkillNames features))
                                   (requiredSkills requirements)
                           in missing @ [''Missing required skills: '' @ join '', '' missingSkills]));
          educationScore = evaluateEducation features requirements;
          passScore = passScore + score educationScore;
          totalScore = totalScore + 20;
          reasons = (if pass educationScore
                     then reasons @ [check_mark @ '' Meets education requirements'']
                     else reasons);
          missing = (if pass educationScore then missing
                     else missing @ [''Requires ''
                                       @ level_name (minimumDegree (requiredEducation requirements))
                                       @ '' degree'']);
          certScore = evaluateCertifications features requirements;
          passScore = passScore + score certScore;
          totalScore = totalScore + 10;
          reasons = (if pass certScore
                     then reasons @ [check_mark @ '' Has relevant certifications'']
                     else reasons);
          missing = (if \<not> pass certScore \<and> certificationsRequired requirements
                     then missing @ [''Missing required certifications'']
                     else missing);
          confidence = (if totalScore > 0 then of_int passScore / of_int totalScore else 0);
          pass' = (confidence \<ge> 7 / 10)
      in \<lparr>ev_pass = pass', ev_confidence = confidence, ev_reasons = reasons,
          ev_missing = missing, ev_errors = errors\<rparr>)"

definition evaluateAgainstCriteria :: "ParsedResume \<Rightarrow> JobRequirements \<Rightarrow> ScreeningResult" where
  "evaluateAgainstCriteria candidateData jobRequirements =
     (let features = extractEvaluationFeatures candidateData;
          evaluation = performEvaluation features jobRequirements
      in \<lparr>candidateProfile = candidateData,
          screeningResult = (if ev_pass evaluation then Pass else Fail),
          matchReasons = ev_reasons evaluation,
          confidenceScore = ev_confidence evaluation,
          missingRequirements = ev_missing evaluation,
          errorMessages = ev_errors evaluation\<rparr>)"

section \<open>The feature extractor (class \<open>FeatureExtractor\<close>)\<close>

text \<open>
  The interface \<open>ExtractedFeatures\<close>, its properties prefixed with \<open>xf_\<close>. The two methods
  that the class shares by name with the evaluator carry the prefix \<open>fx_\<close>.
\<close>

record ExtractedFeatures =
  xf_hasRequiredSkills :: bool
  xf_hasPreferredSkills :: bool
  xf_meetsExperienceRequirement :: bool
  xf_meetsEducationRequirement :: bool
  xf_hasRequiredCertifications :: bool
  xf_totalYearsExperience :: int
  xf_skillMatchPercentage :: int
  xf_educationLevel :: degree_level

definition checkRequiredSkills :: "Skill list \<Rightarrow> bool" where
  "checkRequiredSkills skills' =
     (let requiredSkills' =
            [''JavaScript'', ''Python'', ''Java'', ''React'', ''Node.js'', ''SQL'',
             ''Git'', ''HTML'', ''CSS'', ''TypeScript'', ''AWS'', ''Docker''];
          candidateSkillNames = map (\<lambda>skill. toLowerCase (name skill)) skills'
      in list_ex (\<lambda>skill. toLowerCase skill \<in> set candidateSkillNames) requiredSkills')"

definition checkPreferredSkills :: "Skill list \<Rightarrow> bool" where
  "checkPreferredSkills skills' =
     (let preferredSkills' =
            [''Kubernetes'', ''MongoDB'', ''Redis'', ''GraphQL'', ''TypeScript'',
             ''Docker'', ''AWS'', ''Azure'', ''GCP'', ''CI/CD'', ''Microservices''];
          candidateSkillNames = map (\<lambda>skill. toLowerCase (name skill)) skills'
      in list_ex (\<lambda>skill. toLowerCase skill \<in> set candidateSkillNames) preferredSkills')"

definition fx_calculateTotalExperience :: "WorkExperience list \<Rightarrow> int" where
  "fx_calculateTotalExperience workExperience' =
     (let totalMonths = foldl (\<lambda>total exp. total + duration exp) 0 workExperience'
      in Math_round (of_int totalMonths / 12))"

definition checkExperienceRequirement :: "WorkExperience list \<Rightarrow> bool" where
  "checkExperienceRequirement workExperience' =
     (let totalMonths = fx_calculateTotalExperience workExperience';
          minimumYears = 3
      in totalMonths \<ge> minimumYears * 12)"

definition fx_determineEducationLevel :: "Education list \<Rightarrow> degree_level" where
  "fx_determineEducationLevel education' =
     (if length education' = 0 then high_school
      else fst (foldl education_step (high_school, 1) education'))"

definition checkEducationRequirement :: "Education list \<Rightarrow> bool" where
  "checkEducationRequirement education' =
     (let educationLevel = fx_determineEducationLevel education';
          requiredLevel = bachelor;
          candidateLevel = levelHierarchy educationLevel;
          requiredLevelNum = levelHierarchy requiredLevel
      in candidateLevel \<ge> requiredLevelNum)"

definition checkCertificationRequirement :: "Certification list \<Rightarrow> bool" where
  "checkCertificationRequirement certifications' =
     (let requiredCerts =
            [''AWS Certified'', ''Microsoft Certified'', ''Google Certified'',
             ''CISSP'', ''PMP'', ''Scrum Master'']
      in if length certifications' = 0 then True
         else (let candidateCertNames = map (\<lambda>cert. toLowerCase (cert_name cert)) certifications'
               in list_ex (\<lambda>cert. list_ex (\<lambda>candidateCert.
                             str_includes candidateCert (toLowerCase cert)) candidateCertNames)
                    requiredCerts))"

definition calculateSkillMatch :: "Skill list \<Rightarrow> int" where
  "calculateSkillMatch skills' =
     (let allSkills' =
            [''JavaScript'', ''Python'', ''Java'', ''C++'', ''React'', ''Angular'', ''Vue'',
             ''Node.js'', ''SQL'', ''MongoDB'', ''AWS'', ''Azure'', ''Docker'', ''Kubernetes'',
             ''Git'', ''Linux'', ''HTML'', ''CSS'', ''TypeScript'', ''PHP'', ''Ruby'', ''Go'',
             ''Rust'', ''Swift'', ''Kotlin'', ''Kubernetes'', ''Redis'', ''GraphQL'', ''CI/CD'',
             ''Microservices'', ''REST'', ''GraphQL''];
          candidateSkillNames = map (\<lambda>skill. toLowerCase (name skill)) skills';
          matchedSkills = filter (\<lambda>skill. toLowerCase skill \<in> set candidateSkillNames) allSkills'
      in Math_round (of_nat (length matchedSkills) / of_nat (length allSkills') * 100))"

definition extractFeatures :: "ParsedResume \<Rightarrow> ExtractedFeatures" where
  "extractFeatures parsedResume =
     \<lparr>xf_hasRequiredSkills = checkRequiredSkills (skills parsedResume),
      xf_hasPreferredSkills = checkPreferredSkills (skills parsedResume),
      xf_meetsExperienceRequirement = checkExperienceRequirement (workExperience parsedResume),
      xf_meetsEducationRequirement = checkEducationRequirement (education parsedResume),
      xf_hasRequiredCertifications = checkCertificationRequirement (certifications parsedResume),
      xf_totalYearsExperience = fx_calculateTotalExperience (workExperience parsedResume),
      xf_skillMatchPercentage = calculateSkillMatch (skills parsedResume),
      xf_educationLevel = fx_determineEducationLevel (education parsedResume)\<rparr>"

section \<open>The parser, raw-text path (\<open>parsers/ResumeParser.ts\<close>)\<close>

text \<open>
  The line feed, and the class \<open>\s\<close> of a regular expression on the ASCII range: tab,
  line feed, vertical tab, form feed, carriage return and space. \<open>trim\<close> strips the same
  characters.
\<close>

definition LF :: char where
  "LF = CHR 0x0A"

definition is_space :: "char \<Rightarrow> bool" where
  "is_space c = (c \<in> set [CHR 0x09, CHR 0x0A, CHR 0x0B, CHR 0x0C, CHR 0x0D, CHR 0x20])"

text \<open>
  \<open>text.replace(/C+/g, r)\<close> for a character class \<open>C\<close>: every maximal run of characters
  of the class is replaced by \<open>r\<close>.
\<close>

function replace_runs :: "(char \<Rightarrow> bool) \<Rightarrow> string \<Rightarrow> string \<Rightarrow> string" where
  "replace_runs P r [] = []"
| "replace_runs P r (c # cs) =
     (if P c then r @ replace_runs P r (dropWhile P cs) else c # replace_runs P r cs)"
  by pat_completeness auto
termination
  by (relation "measure (\<lambda>(P, r, s). length s)")
    (auto simp: length_dropWhile_le le_imp_less_Suc)

definition trim :: "string \<Rightarrow> string" where
  "trim s = rev (dropWhile is_space (rev (dropWhile is_space s)))"

text \<open>
  \<open>normalizeText\<close> chains \<open>.replace(/\s+/g, ' ')\<close>, \<open>.replace(/\n+/g, '\n')\<close> and
  \<open>.trim()\<close>, in this order.
\<close>

definition normalizeText :: "string \<Rightarrow> string" where
  "normalizeText text =
     trim (replace_runs (\<lambda>c. c = LF) [LF] (replace_runs is_space '' '' text))"

text \<open>\<open>text.split(sep)\<close> for a one-character separator; the empty string gives one empty line.\<close>

fun split_on :: "char \<Rightarrow> string \<Rightarrow> string list" where
  "split_on sep [] = [[]]"
| "split_on sep (c # cs) =
     (if c = sep then [] # split_on sep cs
      else (case split_on sep cs of l # ls \<Rightarrow> (c # l) # ls | [] \<Rightarrow> [[c]]))"

text \<open>
  The loop of \<open>extractSection\<close> over the lines, with its two variables \<open>inSection\<close> and
  \<open>sectionContent\<close>; \<open>continue\<close> goes on with the next line, \<open>break\<close> returns what
  was collected.
\<close>

fun section_lines :: "string list \<Rightarrow> string list \<Rightarrow> bool \<Rightarrow> string list \<Rightarrow> string list" where
  "section_lines keywords [] inSection sectionContent = sectionContent"
| "section_lines keywords (line # lines) inSection sectionContent =
     (let lowerLine = toLowerCase line in
      if list_ex (\<lambda>keyword. str_includes lowerLine keyword) keywords
        then section_lines keywords lines True sectionContent
      else if inSection \<and> (str_includes lowerLine ''experience''
                \<or> str_includes lowerLine ''education'' \<or> str_includes lowerLine ''skills''
                \<or> str_includes lowerLine ''certifications'')
        then sectionContent
      else if inSection then section_lines keywords lines inSection (sectionContent @ [line])
      else section_lines keywords lines inSection sectionContent)"

definition extractSection :: "string \<Rightarrow> string list \<Rightarrow> string option" where
  "extractSection text keywords =
     (let lines = split_on LF text;
          sectionContent = section_lines keywords lines False []
      in if length sectionContent > 0 then Some (join [LF] sectionContent) else None)"

text \<open>
  What the parser leaves to the regular-expression engine of the host is a parameter of the
  model: the three functions that are one pattern match each (\<open>extractFullName\<close>,
  \<open>extractEmail\<close>, \<open>extractPhone\<close>), and, for each of the four sections, the loop over the
  matches of its patterns in the text of the section, which builds one record for each match.
\<close>

record scanners =
  extractFullName :: "string \<Rightarrow> string"
  extractEmail :: "string \<Rightarrow> string"
  extractPhone :: "string \<Rightarrow> string"
  matchDegrees :: "string \<Rightarrow> Education list"
  matchTitles :: "string \<Rightarrow> WorkExperience list"
  matchSkills :: "string \<Rightarrow> Skill list"
  matchCertifications :: "string \<Rightarrow> Certification list"

text \<open>
  Each section extractor starts with \<open>if (!section) return []\<close>, which is taken for
  \<open>null\<close> and for the empty string, and scans the section otherwise.
\<close>

definition section_or_empty :: "string option \<Rightarrow> (string \<Rightarrow> 'a list) \<Rightarrow> 'a list" where
  "section_or_empty section scan =
     (case section of None \<Rightarrow> [] | Some s \<Rightarrow> if s = [] then [] else scan s)"

definition extractEducation :: "scanners \<Rightarrow> string \<Rightarrow> Education list" where
  "extractEducation sc text =
     section_or_empty (extractSection text [''education'', ''academic'', ''degree''])
       (matchDegrees sc)"

definition extractWorkExperience :: "scanners \<Rightarrow> string \<Rightarrow> WorkExperience list" where
  "extractWorkExperience sc text =
     section_or_empty (extractSection text [''experience'', ''work'', ''employment''])
       (matchTitles sc)"

definition extractSkills :: "scanners \<Rightarrow> string \<Rightarrow> Skill list" where
  "extractSkills sc text =
     section_or_empty (extractSection text [''skills'', ''technical skills'', ''competencies''])
       (matchSkills sc)"

definition extractCertifications :: "scanners \<Rightarrow> string \<Rightarrow> Certification list" where
  "extractCertifications sc text =
     section_or_empty (extractSection text [''certifications'', ''certificates'', ''credentials''])
       (matchCertifications sc)"

definition parseRawResume :: "scanners \<Rightarrow> string \<Rightarrow> ParsedResume" where
  "parseRawResume sc rawText' =
     (let normalizedText = normalizeText rawText' in
      \<lparr>fullName = extractFullName sc normalizedText,
       email = extractEmail sc normalizedText,
       phone = extractPhone sc normalizedText,
       education = extractEducation sc normalizedText,
       workExperience = extractWorkExperience sc normalizedText,
       skills = extractSkills sc normalizedText,
       certifications = extractCertifications sc normalizedText,
       rawText = Some rawText'\<rparr>)"

section \<open>The parser, structured path and entry point\<close>

text \<open>
  A thrown value is an \<open>Error\<close> object with its message (\<open>TypeError\<close> is a subclass, kept
  apart because the host raises it), or a value that is no instance of \<open>Error\<close>. A call
  that may throw returns \<open>exn + 'a\<close>. \<open>message_or\<close> is the expression
  \<open>error instanceof Error ? error.message : other\<close>.
\<close>

datatype exn = Error string | TypeError string | NonError

fun message_or :: "exn \<Rightarrow> string \<Rightarrow> string" where
  "message_or (Error m) other = m"
| "message_or (TypeError m) other = m"
| "message_or NonError other = other"

text \<open>
  \<open>parseResume\<close> takes \<open>string | any\<close>, and the structured path reads whatever object it
  is given, so its argument is a value of the host language: \<open>undefined\<close>, \<open>null\<close>, a
  boolean, a number (an integer or \<open>NaN\<close>), a string, an array, or an object as the list of
  its own properties. Functions, symbols and accessors are not part of the model.
\<close>

datatype jsval =
  JUndefined | JNull | JBool bool | JNum int | JNaN | JStr string
  | JArr "jsval list" | JObj "(string \<times> jsval) list"






text \<open>
  \<open>xs.map(f)\<close> for a callback that may throw: the first exception ends the loop. On a value
  that is not an array the call itself throws, since \<open>map\<close> is \<open>undefined\<close> there. The
  message of a \<open>TypeError\<close> is the host's; no statement below depends on its wording.
\<close>

fun map_throwing :: "('a \<Rightarrow> exn + 'b) \<Rightarrow> 'a list \<Rightarrow> exn + 'b list" where
  "map_throwing f [] = Inr []"
| "map_throwing f (x # xs) =
     (case f x of
        Inl e \<Rightarrow> Inl e
      | Inr y \<Rightarrow> (case map_throwing f xs of Inl e \<Rightarrow> Inl e | Inr ys \<Rightarrow> Inr (y # ys)))"

fun call_map :: "jsval \<Rightarrow> (jsval \<Rightarrow> exn + jsval) \<Rightarrow> exn + jsval" where
  "call_map (JArr xs) f =
     (case map_throwing f xs of Inl e \<Rightarrow> Inl e | Inr ys \<Rightarrow> Inr (JArr ys))"
| "call_map v f = Inl (TypeError ''map is not a function'')"













section \<open>The orchestrator (class \<open>R1Agent\<close>)\<close>

datatype error_type = parsing | extraction | evaluation | excel | llm

text \<open>A \<open>ProcessingError\<close> without its timestamp: the clock is not part of the model.\<close>

record ProcessingError =
  error_type :: error_type
  message :: string

datatype input_type = raw | structured

record 'c ResumeInput =
  input_type :: input_type
  content :: 'c

text \<open>
  The agent holds its three collaborators and the list \<open>errors\<close>. The collaborators are
  fields, set by the constructor, so the model takes them as functions that return or throw;
  \<open>'c\<close> is the type of what \<open>content\<close> holds. What the agent writes to the console is not
  modelled: \<open>logScreeningActivity\<close> prints one entry made of strings, the decision and the
  confidence, and returns.
\<close>

record 'c R1Agent =
  parser :: "'c \<Rightarrow> exn + ParsedResume"
  featureExtractor :: "ParsedResume \<Rightarrow> exn + ExtractedFeatures"
  evaluator :: "ParsedResume \<Rightarrow> JobRequirements \<Rightarrow> exn + ScreeningResult"
  errors :: "ProcessingError list"

definition logError :: "error_type \<Rightarrow> string \<Rightarrow> 'c R1Agent \<Rightarrow> 'c R1Agent" where
  "logError type' message' ag =
     ag\<lparr>errors := errors ag @ [\<lparr>error_type = type', message = message'\<rparr>]\<rparr>"

text \<open>
  The three private methods have one shape: \<open>try { return stage } catch (error) {
  log; throw new Error(prefix + message) }\<close>.
\<close>

definition rethrow ::
  "error_type \<Rightarrow> string \<Rightarrow> string \<Rightarrow> exn + 'a \<Rightarrow> 'c R1Agent \<Rightarrow> (exn + 'a) \<times> 'c R1Agent" where
  "rethrow type' prefix unknown outcome ag =
     (case outcome of
        Inr v \<Rightarrow> (Inr v, ag)
      | Inl error \<Rightarrow>
          (let errorMessage = prefix @ message_or error unknown
           in (Inl (Error errorMessage), logError type' errorMessage ag)))"

definition agent_parseResume ::
  "'c R1Agent \<Rightarrow> 'c ResumeInput \<Rightarrow> (exn + ParsedResume) \<times> 'c R1Agent" where
  "agent_parseResume ag resumeInput =
     rethrow parsing ''Failed to parse resume: '' ''Unknown parsing error''
       (if input_type resumeInput = raw then parser ag (content resumeInput)
        else parser ag (content resumeInput)) ag"

definition agent_extractFeatures ::
  "'c R1Agent \<Rightarrow> ParsedResume \<Rightarrow> (exn + ExtractedFeatures) \<times> 'c R1Agent" where
  "agent_extractFeatures ag parsedResume =
     rethrow extraction ''Failed to extract features: '' ''Unknown extraction error''
       (featureExtractor ag parsedResume) ag"

definition agent_evaluateAgainstCriteria ::
  "'c R1Agent \<Rightarrow> ParsedResume \<Rightarrow> JobRequirements \<Rightarrow> (exn + ScreeningResult) \<times> 'c R1Agent" where
  "agent_evaluateAgainstCriteria ag parsedResume jobRequirements =
     rethrow evaluation ''Failed to evaluate candidate: '' ''Unknown evaluation error''
       (evaluator ag parsedResume jobRequirements) ag"

definition createErrorResult :: "string \<Rightarrow> ScreeningResult" where
  "createErrorResult errorMessage =
     \<lparr>candidateProfile =
        \<lparr>fullName = ''Unknown'', email = [], phone = [], education = [], workExperience = [],
         skills = [], certifications = [], rawText = None\<rparr>,
      screeningResult = Fail,
      matchReasons = [''Processing error occurred''],
      confidenceScore = 0,
      missingRequirements = [],
      errorMessages = [errorMessage]\<rparr>"

text \<open>The \<open>catch\<close> block of \<open>runR1\<close>, and \<open>runR1\<close>: the result and the agent after the call.\<close>

definition runR1_catch :: "exn \<Rightarrow> 'c R1Agent \<Rightarrow> ScreeningResult \<times> 'c R1Agent" where
  "runR1_catch error ag =
     (let errorMessage = message_or error ''Unknown error occurred'';
          ag = logError evaluation (''R1 screening failed: '' @ errorMessage) ag
      in (createErrorResult errorMessage, ag))"

definition runR1 ::
  "'c R1Agent \<Rightarrow> 'c ResumeInput \<Rightarrow> JobRequirements \<Rightarrow> ScreeningResult \<times> 'c R1Agent" where
  "runR1 ag resumeInput jobRequirements =
     (let ag = ag\<lparr>errors := []\<rparr> in
      case agent_parseResume ag resumeInput of
        (Inl error, ag) \<Rightarrow> runR1_catch error ag
      | (Inr parsedResume, ag) \<Rightarrow>
          (case agent_extractFeatures ag parsedResume of
             (Inl error, ag) \<Rightarrow> runR1_catch error ag
           | (Inr extractedFeatures, ag) \<Rightarrow>
               (case agent_evaluateAgainstCriteria ag parsedResume jobRequirements of
                  (Inl error, ag) \<Rightarrow> runR1_catch error ag
                | (Inr screeningResult', ag) \<Rightarrow> (screeningResult', ag))))"

section \<open>Notions used in the statements\<close>

text \<open>\<open>k\<close> occurs in \<open>s\<close>: what \<open>s.includes(k)\<close> is meant to decide.\<close>

definition occurs_in :: "string \<Rightarrow> string \<Rightarrow> bool" where
  "occurs_in k s = (\<exists>before after. s = before @ k @ after)"

text \<open>The points earned in the four categories, out of 30, 40, 20 and 10.\<close>

definition earned_points :: "EvaluationFeatures \<Rightarrow> JobRequirements \<Rightarrow> int" where
  "earned_points f r =
     score (evaluateExperience f r) + score (evaluateSkills f r)
     + score (evaluateEducation f r) + score (evaluateCertifications f r)"

text \<open>
  The normalization as the specification words it: runs of spaces and tabs become one space,
  runs of line feeds become one line feed, and the result is trimmed.
\<close>

definition normalizeText_as_specified :: "string \<Rightarrow> string" where
  "normalizeText_as_specified text =
     trim (replace_runs (\<lambda>c. c = LF) [LF]
             (replace_runs (\<lambda>c. c = CHR '' '' \<or> c = CHR 0x09) '' '' text))"



section \<open>Example data\<close>

text \<open>The candidate and the requirements of the evaluator's unit test.\<close>

definition example_candidate :: ParsedResume where
  "example_candidate =
     \<lparr>fullName = ''Test Candidate'', email = ''test@email.com'', phone = ''5551234567'',
      education =
        [\<lparr>degree = ''Bachelor of Science in Computer Science'',
          institution = ''Test University'', graduationYear = Some 2020,
          field = Some ''Computer Science'', gpa = None\<rparr>],
      workExperience =
        [\<lparr>title = ''Software Engineer'', company = ''Test Company'', startDate = ''2020'',
          endDate = Some ''2023'', duration = 36,
          description = Some ''Developed web applications'',
          technologies = Some [''JavaScript'', ''React'', ''Node.js'']\<rparr>],
      skills =
        [\<lparr>name = ''JavaScript'', category = technical, proficiency = Some advanced,
          yearsOfExperience = None\<rparr>,
         \<lparr>name = ''React'', category = technical, proficiency = Some intermediate,
          yearsOfExperience = None\<rparr>,
         \<lparr>name = ''Node.js'', category = technical, proficiency = Some intermediate,
          yearsOfExperience = None\<rparr>],
      certifications = [], rawText = None\<rparr>"

definition example_requirements :: JobRequirements where
  "example_requirements =
     \<lparr>minimumYearsOfExperience = 3,
      requiredSkills = [''JavaScript'', ''React'', ''Node.js''],
      preferredSkills = [''TypeScript'', ''AWS''],
      requiredEducation = \<lparr>minimumDegree = bachelor, preferredFields = Some [''Computer Science'']\<rparr>,
      requiredCertifications = Some [],
      softSkills = Some [''Communication'']\<rparr>"

text \<open>The same requirements without the optional property \<open>requiredCertifications\<close>.\<close>

definition uncertified_requirements :: JobRequirements where
  "uncertified_requirements = example_requirements\<lparr>requiredCertifications := None\<rparr>"

text \<open>A candidate with one year of work, two skills outside every list, and no degree.\<close>

definition designer_candidate :: ParsedResume where
  "designer_candidate =
     \<lparr>fullName = ''Designer'', email = ''designer@email.com'', phone = ''5553334444'',
      education = [],
      workExperience =
        [\<lparr>title = ''Web Designer'', company = ''Design Corp'', startDate = ''2022'',
          endDate = Some ''2023'', duration = 12, description = None, technologies = None\<rparr>],
      skills =
        [\<lparr>name = ''Photoshop'', category = technical, proficiency = Some intermediate,
          yearsOfExperience = None\<rparr>,
         \<lparr>name = ''Illustrator'', category = technical, proficiency = Some intermediate,
          yearsOfExperience = None\<rparr>],
      certifications = [], rawText = None\<rparr>"

text \<open>
  A stand-in for the regular-expression engine: no name, email or phone is found, and every
  section that is scanned yields one record that holds the section whole.
\<close>

definition whole_section :: scanners where
  "whole_section =
     \<lparr>extractFullName = (\<lambda>text. ''Unknown''),
      extractEmail = (\<lambda>text. []),
      extractPhone = (\<lambda>text. []),
      matchDegrees = (\<lambda>s. [\<lparr>degree = s, institution = ''Unknown Institution'',
                              graduationYear = None, field = None, gpa = None\<rparr>]),
      matchTitles = (\<lambda>s. [\<lparr>title = s, company = ''Unknown Company'', startDate = [],
                             endDate = None, duration = 0, description = Some [],
                             technologies = Some []\<rparr>]),
      matchSkills = (\<lambda>s. [\<lparr>name = s, category = technical, proficiency = Some intermediate,
                             yearsOfExperience = None\<rparr>]),
      matchCertifications = (\<lambda>s. [\<lparr>cert_name = s, issuingOrganization = ''Unknown'',
                                     issueDate = None, expiryDate = None,
                                     credentialId = None\<rparr>])\<rparr>"


text \<open>A resume of two lines, a heading and the skills under it.\<close>

definition two_line_resume :: string where
  "two_line_resume = ''SKILLS'' @ [LF] @ ''JavaScript, React''"



text \<open>An agent whose parser rejects its input with the message of \<open>parseResume\<close>.\<close>

definition rejecting_agent :: "unit R1Agent" where
  "rejecting_agent =
     \<lparr>parser = (\<lambda>input. Inl (Error ''Invalid input format. Expected string or object.'')),
      featureExtractor = (\<lambda>parsedResume. Inr (extractFeatures parsedResume)),
      evaluator = (\<lambda>parsedResume jobRequirements.
                     Inr (evaluateAgainstCriteria parsedResume jobRequirements)),
      errors = []\<rparr>"

section \<open>Substrings and rounding\<close>

lemma take_eq_iff_prefix: "(take (length k) s = k) = (\<exists>q. s = k @ q)"
proof
  assume "take (length k) s = k"
  then have "s = k @ drop (length k) s" by (metis append_take_drop_id)
  then show "\<exists>q. s = k @ q" ..
next
  assume "\<exists>q. s = k @ q"
  then show "take (length k) s = k" by auto
qed

lemma str_includes_iff: "str_includes s k = occurs_in k s"
proof (induction s)
  case Nil
  show ?case by (simp add: occurs_in_def)
next
  case (Cons c cs)
  have "occurs_in k (c # cs) = ((\<exists>q. c # cs = k @ q) \<or> occurs_in k cs)"
  proof
    assume "occurs_in k (c # cs)"
    then obtain p q where pq: "c # cs = p @ k @ q" by (auto simp: occurs_in_def)
    show "(\<exists>q. c # cs = k @ q) \<or> occurs_in k cs"
    proof (cases p)
      case Nil
      with pq show ?thesis by auto
    next
      case (Cons a p')
      with pq have "cs = p' @ k @ q" by simp
      then show ?thesis by (auto simp: occurs_in_def)
    qed
  next
    assume "(\<exists>q. c # cs = k @ q) \<or> occurs_in k cs"
    then show "occurs_in k (c # cs)"
    proof
      assume "\<exists>q. c # cs = k @ q"
      then obtain q where "c # cs = [] @ k @ q" by auto
      then show ?thesis unfolding occurs_in_def by blast
    next
      assume "occurs_in k cs"
      then obtain p q where "cs = p @ k @ q" by (auto simp: occurs_in_def)
      then have "c # cs = (c # p) @ k @ q" by simp
      then show ?thesis unfolding occurs_in_def by blast
    qed
  qed
  with Cons show ?case by (simp only: str_includes.simps take_eq_iff_prefix)
qed

lemma occurs_in_suffix: "occurs_in m (prefix @ m)"
proof -
  have "prefix @ m = prefix @ m @ []" by simp
  then show ?thesis unfolding occurs_in_def by blast
qed

lemma foldl_duration: "foldl (\<lambda>total exp. total + duration exp) a ws = a + sum_list (map duration ws)"
  by (induction ws arbitrary: a) simp_all

lemma Math_round_nearest: "\<bar>of_int (Math_round x) - x\<bar> \<le> 1 / 2"
  unfolding Math_round_def by linarith

lemma Math_round_nonneg: "0 \<le> x \<Longrightarrow> 0 \<le> Math_round x"
  unfolding Math_round_def by simp

section \<open>Total experience\<close>

text \<open>
  C8. For every list of work experiences, \<open>calculateTotalExperience\<close> is the sum of the
  durations in months divided by 12 and rounded to the nearest integer (at most one half
  away from the quotient); it is not negative when no duration is; and the method of the
  feature extractor computes the same value as the method of the evaluator.
\<close>

theorem total_experience_rounded:
  "calculateTotalExperience ws = round (of_int (sum_list (map duration ws)) / 12 :: rat)
   \<and> \<bar>of_int (calculateTotalExperience ws) - (of_int (sum_list (map duration ws)) / 12 :: rat)\<bar> \<le> 1 / 2
   \<and> ((\<forall>w \<in> set ws. 0 \<le> duration w) \<longrightarrow> 0 \<le> calculateTotalExperience ws)
   \<and> fx_calculateTotalExperience ws = calculateTotalExperience ws"
proof -
  let ?m = "sum_list (map duration ws)"
  have tot: "calculateTotalExperience ws = Math_round (of_int ?m / 12)"
    by (simp add: calculateTotalExperience_def foldl_duration)
  have r: "calculateTotalExperience ws = round (of_int ?m / 12 :: rat)"
    by (simp add: tot Math_round_def round_def)
  have n: "\<bar>of_int (calculateTotalExperience ws) - (of_int ?m / 12 :: rat)\<bar> \<le> 1 / 2"
    unfolding tot by (rule Math_round_nearest)
  have p: "(\<forall>w \<in> set ws. 0 \<le> duration w) \<longrightarrow> 0 \<le> calculateTotalExperience ws"
  proof
    assume "\<forall>w \<in> set ws. 0 \<le> duration w"
    then have "0 \<le> ?m" by (intro sum_list_nonneg) auto
    then have "(0 :: rat) \<le> of_int ?m / 12" by simp
    then show "0 \<le> calculateTotalExperience ws" unfolding tot by (rule Math_round_nonneg)
  qed
  have e: "fx_calculateTotalExperience ws = calculateTotalExperience ws"
    by (simp add: fx_calculateTotalExperience_def calculateTotalExperience_def)
  from r n p e show ?thesis by blast
qed

theorem total_experience_rounded_witness:
  "list_all (\<lambda>w. 0 \<le> duration w)
     (workExperience designer_candidate @ workExperience example_candidate)
   \<and> sum_list (map duration
         (workExperience designer_candidate @ workExperience example_candidate)) = 48
   \<and> calculateTotalExperience
         (workExperience designer_candidate @ workExperience example_candidate) = 4
   \<and> 0 \<le> calculateTotalExperience
         (workExperience designer_candidate @ workExperience example_candidate)
   \<and> fx_calculateTotalExperience
         (workExperience designer_candidate @ workExperience example_candidate) = 4"
proof -
  let ?ws = "workExperience designer_candidate @ workExperience example_candidate"
  have a: "\<forall>w \<in> set ?ws. 0 \<le> duration w"
    by (simp add: designer_candidate_def example_candidate_def)
  have b: "sum_list (map duration ?ws) = 48"
    by (simp add: designer_candidate_def example_candidate_def)
  have c: "round (of_int (sum_list (map duration ?ws)) / 12 :: rat) = 4"
    unfolding b by simp
  from a have d: "list_all (\<lambda>w. 0 \<le> duration w) ?ws"
    by (simp only: list_all_iff)
  from total_experience_rounded [of ?ws]
  have t: "calculateTotalExperience ?ws = round (of_int (sum_list (map duration ?ws)) / 12 :: rat)"
    and n: "(\<forall>w \<in> set ?ws. 0 \<le> duration w) \<longrightarrow> 0 \<le> calculateTotalExperience ?ws"
    and e: "fx_calculateTotalExperience ?ws = calculateTotalExperience ?ws"
    by blast+
  from t c have v: "calculateTotalExperience ?ws = 4" by (rule trans)
  from n a have p: "0 \<le> calculateTotalExperience ?ws" by (rule mp)
  from e v have x: "fx_calculateTotalExperience ?ws = 4" by (rule trans)
  from d b v p x show ?thesis by (intro conjI)
qed

section \<open>Points, confidence and decision\<close>

lemma score_evaluateExperience:
  "score (evaluateExperience f r) =
     (if f_totalExperience f \<ge> minimumYearsOfExperience r then 20 else 0)
     + (if f_hasRelevantExperience f then 10 else 0)"
  by (simp add: evaluateExperience_def Let_def)

lemma score_evaluateSkills:
  "score (evaluateSkills f r) =
     (if f_hasRequiredSkills f then 25 else 0)
     + (if percentage (f_skillMatch f) \<ge> 50 then 15 else 0)"
  by (simp add: evaluateSkills_def Let_def)

lemma score_evaluateEducation:
  "score (evaluateEducation f r) =
     (if levelHierarchy (f_educationLevel f) \<ge> levelHierarchy (minimumDegree (requiredEducation r)) then 15 else 0)
     + (if f_hasRelevantEducation f then 5 else 0)"
  by (simp add: evaluateEducation_def Let_def)

lemma score_evaluateCertifications:
  "score (evaluateCertifications f r) =
     (if \<not> certificationsRequired r \<or> f_hasCertifications f then 10 else 0)"
  by (simp add: evaluateCertifications_def Let_def)

lemma experience_bounds: "0 \<le> score (evaluateExperience f r) \<and> score (evaluateExperience f r) \<le> 30"
  by (simp add: score_evaluateExperience)

lemma skills_bounds: "0 \<le> score (evaluateSkills f r) \<and> score (evaluateSkills f r) \<le> 40"
  by (simp add: score_evaluateSkills)

lemma education_bounds: "0 \<le> score (evaluateEducation f r) \<and> score (evaluateEducation f r) \<le> 20"
  by (simp add: score_evaluateEducation)

lemma certifications_bounds: "0 \<le> score (evaluateCertifications f r) \<and> score (evaluateCertifications f r) \<le> 10"
  by (simp add: score_evaluateCertifications)

lemma performEvaluation_confidence:
  "ev_confidence (performEvaluation f r) = of_int (earned_points f r) / 100"
  by (simp add: performEvaluation_def Let_def earned_points_def)

lemma performEvaluation_pass:
  "ev_pass (performEvaluation f r) = (ev_confidence (performEvaluation f r) \<ge> 7 / 10)"
  by (simp only: performEvaluation_def Let_def Evaluation.select_convs)

lemma earned_points_bounds: "0 \<le> earned_points f r \<and> earned_points f r \<le> 100"
  using experience_bounds[of f r] skills_bounds[of f r] education_bounds[of f r]
    certifications_bounds[of f r]
  unfolding earned_points_def by linarith

text \<open>
  C1. For every profile and requirements, the confidence score that
  \<open>evaluateAgainstCriteria\<close> returns is the sum of the points earned in the four categories
  divided by 100, it lies between 0 and 1, and the result is \<open>pass\<close> exactly when the
  confidence is at least 0.70, that is when at least 70 points are earned: no category
  decides alone.
\<close>

theorem confidence_and_decision:
  "confidenceScore (evaluateAgainstCriteria p r)
     = of_int (earned_points (extractEvaluationFeatures p) r) / 100
   \<and> 0 \<le> confidenceScore (evaluateAgainstCriteria p r)
   \<and> confidenceScore (evaluateAgainstCriteria p r) \<le> 1
   \<and> (screeningResult (evaluateAgainstCriteria p r) = Pass)
       = (confidenceScore (evaluateAgainstCriteria p r) \<ge> 7 / 10)
   \<and> (screeningResult (evaluateAgainstCriteria p r) = Pass)
       = (earned_points (extractEvaluationFeatures p) r \<ge> 70)"
proof -
  let ?f = "extractEvaluationFeatures p"
  have c: "confidenceScore (evaluateAgainstCriteria p r) = of_int (earned_points ?f r) / 100"
    by (simp add: evaluateAgainstCriteria_def Let_def performEvaluation_confidence)
  have d: "(screeningResult (evaluateAgainstCriteria p r) = Pass)
           = (confidenceScore (evaluateAgainstCriteria p r) \<ge> 7 / 10)"
    by (simp add: evaluateAgainstCriteria_def Let_def performEvaluation_pass)
  have lo: "(0 :: rat) \<le> of_int (earned_points ?f r) / 100"
    using earned_points_bounds[of ?f r] by simp
  have hi: "of_int (earned_points ?f r) / 100 \<le> (1 :: rat)"
    using earned_points_bounds[of ?f r] by simp
  have t: "((7 :: rat) / 10 \<le> of_int (earned_points ?f r) / 100) = (70 \<le> earned_points ?f r)"
  proof -
    have "((7 :: rat) / 10 \<le> of_int (earned_points ?f r) / 100)
          = ((of_int 70 :: rat) \<le> of_int (earned_points ?f r))"
      by (simp add: field_simps)
    also have "\<dots> = (70 \<le> earned_points ?f r)" by (simp only: of_int_le_iff)
    finally show ?thesis .
  qed
  show ?thesis
  proof (intro conjI)
    show "confidenceScore (evaluateAgainstCriteria p r) = of_int (earned_points ?f r) / 100"
      by (rule c)
    show "0 \<le> confidenceScore (evaluateAgainstCriteria p r)"
      unfolding c by (rule lo)
    show "confidenceScore (evaluateAgainstCriteria p r) \<le> 1"
      unfolding c by (rule hi)
    show "(screeningResult (evaluateAgainstCriteria p r) = Pass)
            = (confidenceScore (evaluateAgainstCriteria p r) \<ge> 7 / 10)"
      by (rule d)
    show "(screeningResult (evaluateAgainstCriteria p r) = Pass)
            = (earned_points ?f r \<ge> 70)"
      unfolding d c by (rule t)
  qed
qed

text \<open>
  The example candidate fails the certifications category once a certification is required,
  and passes the screening with 75 points.
\<close>

theorem confidence_and_decision_witness:
  "confidenceScore (evaluateAgainstCriteria example_candidate
      (example_requirements\<lparr>requiredCertifications := Some [''PMP'']\<rparr>)) = 75 / 100
   \<and> screeningResult (evaluateAgainstCriteria example_candidate
      (example_requirements\<lparr>requiredCertifications := Some [''PMP'']\<rparr>)) = Pass
   \<and> \<not> pass (evaluateCertifications (extractEvaluationFeatures example_candidate)
      (example_requirements\<lparr>requiredCertifications := Some [''PMP'']\<rparr>))"
proof -
  let ?r = "example_requirements\<lparr>requiredCertifications := Some [''PMP'']\<rparr>"
  have e: "earned_points (extractEvaluationFeatures example_candidate) ?r = 75"
    by code_simp
  have c: "\<not> pass (evaluateCertifications (extractEvaluationFeatures example_candidate) ?r)"
    by code_simp
  show ?thesis
    using confidence_and_decision [of example_candidate ?r] e c by simp
qed

text \<open>
  C4. The experience category earns 20 points exactly when the total years reach the
  required minimum, plus 10 points exactly when the lowercased title or description of some
  work experience contains one of the eleven relevance keywords; the category passes on the
  years alone, so the 10 points are earned also when it fails.
\<close>

theorem experience_points:
  "score (evaluateExperience (extractEvaluationFeatures p) r)
     = (if calculateTotalExperience (workExperience p) \<ge> minimumYearsOfExperience r then 20 else 0)
       + (if \<exists>e \<in> set (workExperience p).
               \<exists>k \<in> set [''software'', ''developer'', ''engineer'', ''programmer'', ''coding'',
                          ''web'', ''application'', ''system'', ''database'', ''frontend'',
                          ''backend''].
                 occurs_in k (toLowerCase (title e))
                 \<or> occurs_in k (case description e of None \<Rightarrow> [] | Some d \<Rightarrow> toLowerCase d)
          then 10 else 0)
   \<and> pass (evaluateExperience (extractEvaluationFeatures p) r)
       = (calculateTotalExperience (workExperience p) \<ge> minimumYearsOfExperience r)
   \<and> (\<not> pass (evaluateExperience (extractEvaluationFeatures p) r)
        \<and> hasRelevantExperience (workExperience p)
      \<longrightarrow> score (evaluateExperience (extractEvaluationFeatures p) r) = 10)"
proof -
  have rel: "hasRelevantExperience (workExperience p)
     = (\<exists>e \<in> set (workExperience p).
               \<exists>k \<in> set [''software'', ''developer'', ''engineer'', ''programmer'', ''coding'',
                          ''web'', ''application'', ''system'', ''database'', ''frontend'',
                          ''backend''].
                 occurs_in k (toLowerCase (title e))
                 \<or> occurs_in k (case description e of None \<Rightarrow> [] | Some d \<Rightarrow> toLowerCase d))"
    unfolding hasRelevantExperience_def relevantKeywords_def list_ex_iff Let_def str_includes_iff
    by (intro bex_cong refl)
  have f1: "f_totalExperience (extractEvaluationFeatures p) = calculateTotalExperience (workExperience p)"
    by (simp add: extractEvaluationFeatures_def)
  have f2: "f_hasRelevantExperience (extractEvaluationFeatures p) = hasRelevantExperience (workExperience p)"
    by (simp add: extractEvaluationFeatures_def)
  have p: "pass (evaluateExperience (extractEvaluationFeatures p) r)
       = (calculateTotalExperience (workExperience p) \<ge> minimumYearsOfExperience r)"
    by (simp add: evaluateExperience_def Let_def f1)
  show ?thesis
    unfolding score_evaluateExperience f1 f2 p rel [symmetric] by simp
qed

theorem experience_points_witness:
  "\<not> pass (evaluateExperience (extractEvaluationFeatures designer_candidate) example_requirements)
   \<and> hasRelevantExperience (workExperience designer_candidate)
   \<and> score (evaluateExperience (extractEvaluationFeatures designer_candidate) example_requirements) = 10"
proof -
  have a: "\<not> pass (evaluateExperience (extractEvaluationFeatures designer_candidate) example_requirements)"
    by code_simp
  have b: "hasRelevantExperience (workExperience designer_candidate)"
    by code_simp
  show ?thesis
    using experience_points [of designer_candidate example_requirements] a b by blast
qed

section \<open>Certifications and skills\<close>

lemma matchReasons_certifications:
  "pass (evaluateCertifications (extractEvaluationFeatures p) r) \<Longrightarrow>
   check_mark @ '' Has relevant certifications'' \<in> set (matchReasons (evaluateAgainstCriteria p r))"
  by (simp add: evaluateAgainstCriteria_def performEvaluation_def Let_def)

text \<open>
  C5, as amended. Whenever \<open>requiredCertifications\<close> is absent or empty, the certifications
  category passes with its full 10 points for every candidate, and the reason
  \<open>Has relevant certifications\<close> (after the check mark) is among the match reasons.
\<close>

theorem vacuous_certifications:
  assumes "requiredCertifications r = None \<or> requiredCertifications r = Some []"
  shows "score (evaluateCertifications (extractEvaluationFeatures p) r) = 10
         \<and> pass (evaluateCertifications (extractEvaluationFeatures p) r)
         \<and> check_mark @ '' Has relevant certifications''
             \<in> set (matchReasons (evaluateAgainstCriteria p r))"
proof -
  from assms have n: "\<not> certificationsRequired r"
    by (auto simp: certificationsRequired_def)
  then have s: "score (evaluateCertifications (extractEvaluationFeatures p) r) = 10"
    by (simp add: evaluateCertifications_def)
  from n have q: "pass (evaluateCertifications (extractEvaluationFeatures p) r)"
    by (simp add: evaluateCertifications_def)
  from s q matchReasons_certifications [OF q] show ?thesis by blast
qed

theorem vacuous_certifications_witness:
  "requiredCertifications example_requirements = Some []
   \<and> certifications example_candidate = []
   \<and> score (evaluateCertifications (extractEvaluationFeatures example_candidate)
        example_requirements) = 10
   \<and> check_mark @ '' Has relevant certifications''
       \<in> set (matchReasons (evaluateAgainstCriteria example_candidate example_requirements))"
proof -
  have a: "requiredCertifications example_requirements = Some []"
    by (simp add: example_requirements_def)
  have b: "certifications example_candidate = []"
    by (simp add: example_candidate_def)
  from a have h: "requiredCertifications example_requirements = None
                  \<or> requiredCertifications example_requirements = Some []" ..
  show ?thesis
    using vacuous_certifications [OF h, of example_candidate] a b by blast
qed

text \<open>
  The claim as first stated has the reason left out in this branch. It is there: for the
  example candidate, who holds no certification, against requirements without the property.
\<close>

theorem vacuous_certifications_reason_counterexample:
  "requiredCertifications uncertified_requirements = None
   \<and> certifications example_candidate = []
   \<and> check_mark @ '' Has relevant certifications''
       \<in> set (matchReasons (evaluateAgainstCriteria example_candidate uncertified_requirements))"
  by code_simp






section \<open>Normalization and the sections of a raw text\<close>

lemma set_replace_runs: "set (replace_runs P r s) \<subseteq> {c \<in> set s. \<not> P c} \<union> set r"
proof (induction P r s rule: replace_runs.induct)
  case (1 P r)
  show ?case by simp
next
  case (2 P r c cs)
  show ?case
  proof (cases "P c")
    case True
    have "set (dropWhile P cs) \<subseteq> set cs" by (rule set_dropWhileD [THEN subsetI])
    with 2(1) [OF True] True show ?thesis by auto
  next
    case False
    with 2(2) [OF False] show ?thesis by auto
  qed
qed

lemma replace_runs_id: "\<forall>c \<in> set s. \<not> P c \<Longrightarrow> replace_runs P r s = s"
  by (induction s) simp_all

lemma set_trim: "set (trim s) \<subseteq> set s"
proof -
  have "set (trim s) = set (dropWhile is_space (rev (dropWhile is_space s)))"
    by (simp add: trim_def)
  also have "\<dots> \<subseteq> set (rev (dropWhile is_space s))"
    by (rule set_dropWhileD [THEN subsetI])
  also have "\<dots> \<subseteq> set s"
    using set_dropWhileD [of _ is_space s] by auto
  finally show ?thesis .
qed

lemma is_space_LF: "is_space LF"
  by (simp add: is_space_def LF_def)

lemma normalizeText_no_newline: "LF \<notin> set (normalizeText text)"
proof -
  let ?a = "replace_runs is_space '' '' text"
  have "set ?a \<subseteq> {c \<in> set text. \<not> is_space c} \<union> set '' ''" by (rule set_replace_runs)
  then have a: "LF \<notin> set ?a" using is_space_LF by (auto simp: LF_def)
  then have "replace_runs (\<lambda>c. c = LF) [LF] ?a = ?a" by (intro replace_runs_id) auto
  then have "normalizeText text = trim ?a" by (simp add: normalizeText_def)
  with a set_trim [of ?a] show ?thesis by auto
qed

lemma split_on_absent: "sep \<notin> set s \<Longrightarrow> split_on sep s = [s]"
  by (induction s) auto

lemma section_lines_single: "section_lines keywords [line] False [] = []"
  by (simp add: Let_def)

lemma extractSection_normalized: "extractSection (normalizeText text) keywords = None"
  by (simp add: extractSection_def Let_def split_on_absent [OF normalizeText_no_newline]
      section_lines_single del: section_lines.simps)

text \<open>
  C2. For every raw text, whatever the pattern matching of the host finds, the profile that
  the raw-text path returns has no education, no work experience, no skill and no
  certification: the normalized text holds no line feed, so it is one line, and
  \<open>extractSection\<close> returns \<open>null\<close> on it for every list of keywords.
\<close>

theorem raw_text_sections_empty:
  "length (split_on LF (normalizeText text)) = 1
   \<and> extractSection (normalizeText text) keywords = None
   \<and> education (parseRawResume sc text) = []
   \<and> workExperience (parseRawResume sc text) = []
   \<and> skills (parseRawResume sc text) = []
   \<and> certifications (parseRawResume sc text) = []"
  by (simp add: split_on_absent [OF normalizeText_no_newline] extractSection_normalized
      parseRawResume_def Let_def extractEducation_def extractWorkExperience_def
      extractSkills_def extractCertifications_def section_or_empty_def)

text \<open>
  Read as it is, the resume of two lines has a skills section; once normalized it is one
  line and has none.
\<close>

theorem raw_text_sections_empty_witness:
  "extractSkills whole_section two_line_resume
     = [\<lparr>name = ''JavaScript, React'', category = technical, proficiency = Some intermediate,
         yearsOfExperience = None\<rparr>]
   \<and> skills (parseRawResume whole_section two_line_resume) = []
   \<and> length (split_on LF (normalizeText two_line_resume)) = 1"
proof -
  have "extractSkills whole_section two_line_resume
     = [\<lparr>name = ''JavaScript, React'', category = technical, proficiency = Some intermediate,
         yearsOfExperience = None\<rparr>]"
    by code_simp
  then show ?thesis
    using raw_text_sections_empty [of two_line_resume "[]" whole_section] by simp
qed

text \<open>
  C7. The claim has the normalization keep one line feed between lines. On the resume of two
  lines \<open>normalizeText\<close> returns one line, where the normalization as specified returns
  the two lines unchanged.
\<close>

theorem normalizeText_joins_lines:
  "normalizeText two_line_resume = ''SKILLS JavaScript, React''
   \<and> normalizeText_as_specified two_line_resume = two_line_resume
   \<and> length (split_on LF (normalizeText two_line_resume)) = 1
   \<and> length (split_on LF (normalizeText_as_specified two_line_resume)) = 2"
  by code_simp

section \<open>The entry point of the parser\<close>

lemma isl_map_throwing: "isl (map_throwing f xs) = (\<exists>x \<in> set xs. isl (f x))"
  by (induction xs) (auto split: sum.splits)

lemma isl_rewrap: "isl (case r of Inl e \<Rightarrow> Inl e | Inr y \<Rightarrow> Inr (g y)) = isl r"
  by (cases r) simp_all

lemma isl_call_map:
  "isl (call_map v f) = (case v of JArr xs \<Rightarrow> \<exists>x \<in> set xs. isl (f x) | _ \<Rightarrow> True)"
  by (cases v) (simp_all add: isl_rewrap isl_map_throwing)
























section \<open>The orchestrator never throws\<close>

lemma runR1_parse_failure:
  "parser ag (content inp) = Inl e \<Longrightarrow>
   fst (runR1 ag inp req)
     = createErrorResult (''Failed to parse resume: '' @ message_or e ''Unknown parsing error'')"
  by (simp add: runR1_def agent_parseResume_def rethrow_def runR1_catch_def Let_def)

lemma runR1_extract_failure:
  "parser ag (content inp) = Inr p \<Longrightarrow> featureExtractor ag p = Inl e \<Longrightarrow>
   fst (runR1 ag inp req)
     = createErrorResult (''Failed to extract features: ''
                           @ message_or e ''Unknown extraction error'')"
  by (simp add: runR1_def agent_parseResume_def agent_extractFeatures_def rethrow_def
      runR1_catch_def Let_def)

lemma runR1_evaluate_failure:
  "parser ag (content inp) = Inr p \<Longrightarrow> featureExtractor ag p = Inr f \<Longrightarrow>
   evaluator ag p req = Inl e \<Longrightarrow>
   fst (runR1 ag inp req)
     = createErrorResult (''Failed to evaluate candidate: ''
                           @ message_or e ''Unknown evaluation error'')"
  by (simp add: runR1_def agent_parseResume_def agent_extractFeatures_def
      agent_evaluateAgainstCriteria_def rethrow_def runR1_catch_def Let_def)

lemma runR1_success:
  "parser ag (content inp) = Inr p \<Longrightarrow> featureExtractor ag p = Inr f \<Longrightarrow>
   evaluator ag p req = Inr res \<Longrightarrow> fst (runR1 ag inp req) = res"
  by (simp add: runR1_def agent_parseResume_def agent_extractFeatures_def
      agent_evaluateAgainstCriteria_def rethrow_def runR1_catch_def Let_def)

lemma message_kept:
  "e = Error m \<or> e = TypeError m \<Longrightarrow> occurs_in m (prefix @ message_or e other)"
  by (auto simp: occurs_in_suffix)

lemma sentinel_fields:
  "screeningResult (createErrorResult msg) = Fail
   \<and> confidenceScore (createErrorResult msg) = 0
   \<and> candidateProfile (createErrorResult msg)
       = \<lparr>fullName = ''Unknown'', email = [], phone = [], education = [], workExperience = [],
          skills = [], certifications = [], rawText = None\<rparr>
   \<and> errorMessages (createErrorResult msg) = [msg]"
  by (simp add: createErrorResult_def)

text \<open>
  C3. \<open>runR1\<close> returns a screening result whatever its three stages do. When a stage
  throws (the parser, or the feature extractor after the parser has returned, or the
  evaluator after both have), the result is the one of \<open>createErrorResult\<close>: \<open>fail\<close>,
  confidence 0, the profile named \<open>Unknown\<close> with empty fields, and one error message,
  in which the message of the thrown error occurs. When no stage throws, the result is the
  evaluator's.
\<close>

theorem runR1_never_throws:
  "(parser ag (content inp) = Inl e
      \<or> (\<exists>p. parser ag (content inp) = Inr p
               \<and> (featureExtractor ag p = Inl e
                   \<or> (\<exists>f. featureExtractor ag p = Inr f \<and> evaluator ag p req = Inl e)))
    \<longrightarrow> (\<exists>msg. fst (runR1 ag inp req) = createErrorResult msg
               \<and> screeningResult (fst (runR1 ag inp req)) = Fail
               \<and> confidenceScore (fst (runR1 ag inp req)) = 0
               \<and> candidateProfile (fst (runR1 ag inp req))
                   = \<lparr>fullName = ''Unknown'', email = [], phone = [], education = [],
                      workExperience = [], skills = [], certifications = [], rawText = None\<rparr>
               \<and> errorMessages (fst (runR1 ag inp req)) = [msg]
               \<and> (\<forall>m. e = Error m \<or> e = TypeError m \<longrightarrow> occurs_in m msg)))
   \<and> ((\<exists>p f. parser ag (content inp) = Inr p \<and> featureExtractor ag p = Inr f
               \<and> evaluator ag p req = Inr res)
      \<longrightarrow> fst (runR1 ag inp req) = res)"
proof (intro conjI impI)
  assume "parser ag (content inp) = Inl e
      \<or> (\<exists>p. parser ag (content inp) = Inr p
               \<and> (featureExtractor ag p = Inl e
                   \<or> (\<exists>f. featureExtractor ag p = Inr f \<and> evaluator ag p req = Inl e)))"
  then obtain prefix other
    where r: "fst (runR1 ag inp req) = createErrorResult (prefix @ message_or e other)"
    using runR1_parse_failure [of ag inp e req] runR1_extract_failure [of ag inp _ e req]
      runR1_evaluate_failure [of ag inp _ _ req e]
    by blast
  let ?msg = "prefix @ message_or e other"
  have "\<forall>m. e = Error m \<or> e = TypeError m \<longrightarrow> occurs_in m ?msg"
    by (blast intro: message_kept)
  with r sentinel_fields [of ?msg]
  show "\<exists>msg. fst (runR1 ag inp req) = createErrorResult msg
               \<and> screeningResult (fst (runR1 ag inp req)) = Fail
               \<and> confidenceScore (fst (runR1 ag inp req)) = 0
               \<and> candidateProfile (fst (runR1 ag inp req))
                   = \<lparr>fullName = ''Unknown'', email = [], phone = [], education = [],
                      workExperience = [], skills = [], certifications = [], rawText = None\<rparr>
               \<and> errorMessages (fst (runR1 ag inp req)) = [msg]
               \<and> (\<forall>m. e = Error m \<or> e = TypeError m \<longrightarrow> occurs_in m msg)"
    by (intro exI [of _ ?msg]) simp
next
  assume "\<exists>p f. parser ag (content inp) = Inr p \<and> featureExtractor ag p = Inr f
               \<and> evaluator ag p req = Inr res"
  then show "fst (runR1 ag inp req) = res"
    by (blast intro: runR1_success)
qed

theorem runR1_never_throws_witness:
  "parser rejecting_agent (content \<lparr>input_type = raw, content = ()\<rparr>)
     = Inl (Error ''Invalid input format. Expected string or object.'')
   \<and> screeningResult (fst (runR1 rejecting_agent \<lparr>input_type = raw, content = ()\<rparr>
                             example_requirements)) = Fail
   \<and> (\<exists>msg. errorMessages (fst (runR1 rejecting_agent \<lparr>input_type = raw, content = ()\<rparr>
                                    example_requirements)) = [msg]
             \<and> occurs_in ''Invalid input format. Expected string or object.'' msg)"
proof -
  let ?inp = "\<lparr>input_type = raw, content = ()\<rparr>"
  let ?e = "Error ''Invalid input format. Expected string or object.''"
  have a: "parser rejecting_agent (content ?inp) = Inl ?e"
    by (simp add: rejecting_agent_def)
  from runR1_never_throws [of rejecting_agent ?inp ?e example_requirements] a
  obtain msg where
    "screeningResult (fst (runR1 rejecting_agent ?inp example_requirements)) = Fail"
    "errorMessages (fst (runR1 rejecting_agent ?inp example_requirements)) = [msg]"
    "\<forall>m. ?e = Error m \<or> ?e = TypeError m \<longrightarrow> occurs_in m msg"
    by blast
  with a show ?thesis by blast
qed

section \<open>The evaluation reads its arguments only\<close>






end
